theory Spec2Isabelle
  imports Main "HOL-Library.AList"
begin

section \<open>Data model of the initiator payment manager\<close>

text \<open>
  Shallow embedding of \<^verbatim>\<open>raiden/transfer/mediated_transfer/initiator_manager.py\<close>.
  Byte strings (addresses, secrets, hashes) are \<^typ>\<open>string\<close>, Python integers are
  \<^typ>\<open>int\<close>. The classes used by the module live in other modules of the program; a
  record holds the attributes that this module reads.
\<close>

type_synonym Address = string
type_synonym Secret = string
type_synonym SecretHash = string
type_synonym ChannelID = int
type_synonym BlockNumber = int

text \<open>\<^verbatim>\<open>RouteState\<close>: only handed on to \<^verbatim>\<open>initiator.try_new_route\<close>.\<close>
type_synonym RouteState = "Address \<times> ChannelID"

text \<open>\<^verbatim>\<open>HashTimeLockState\<close>: \<^verbatim>\<open>lock.amount\<close>, \<^verbatim>\<open>lock.expiration\<close>, \<^verbatim>\<open>lock.secrethash\<close>.\<close>
record HashTimeLockState =
  lock_amount :: int
  lock_expiration :: int
  lock_secrethash :: SecretHash

text \<open>\<^verbatim>\<open>LockedTransferUnsignedState\<close>: \<^verbatim>\<open>transfer.payment_identifier\<close>, \<^verbatim>\<open>transfer.lock\<close>.\<close>
record LockedTransferState =
  lt_payment_identifier :: int
  lock :: HashTimeLockState

text \<open>\<^verbatim>\<open>TransferDescriptionWithSecretState\<close>, its attributes in constructor order, and
  \<^verbatim>\<open>secrethash\<close>, which the constructor derives from the secret.\<close>
record TransferDescription =
  payment_network_identifier :: Address
  payment_identifier :: int
  amount :: int
  token_network_identifier :: Address
  initiator :: Address
  target :: Address
  secret :: Secret
  secrethash :: SecretHash

text \<open>Effects. The three events this module builds itself, and \<open>OtherEvent\<close> for every
  event that only the collaborators build (messages to send, payment success, ...).\<close>
datatype Event =
    EventUnlockFailed int SecretHash string
  | EventPaymentSentFailed Address Address int Address string
  | EventUnlockClaimFailed int SecretHash string
  | OtherEvent string

text \<open>\<^verbatim>\<open>InitiatorTransferState\<close>, one route attempt. \<^verbatim>\<open>revealsecret\<close> is \<^verbatim>\<open>None\<close> until the
  secret has been revealed.\<close>
record InitiatorTransferState =
  transfer_description :: TransferDescription
  channel_identifier :: ChannelID
  transfer :: LockedTransferState
  revealsecret :: "Event option"
  received_secret_request :: bool

text \<open>\<^verbatim>\<open>InitiatorPaymentState\<close>. \<^verbatim>\<open>initiator_transfers\<close> is a Python dict, which keeps
  insertion order and is iterated in that order: an association list.\<close>
record InitiatorPaymentState =
  initiator_transfers :: "(SecretHash \<times> InitiatorTransferState) list"
  cancelled_channels :: "ChannelID list"

text \<open>\<^verbatim>\<open>NettingChannelState\<close>; the end state of the partner is opaque (\<open>'p\<close>).\<close>
record 'p NettingChannelState =
  chan_payment_network_identifier :: Address
  chan_token_network_identifier :: Address
  partner_state :: 'p

type_synonym 'p ChannelMap = "ChannelID \<rightharpoonup> 'p NettingChannelState"

text \<open>State changes. The selectors are the attributes this module reads; \<open>sc_rest\<close> stands
  for the remaining attributes, which only the collaborators read.\<close>
datatype StateChange =
    Block (sc_block_number: int)
  | ActionInitInitiator (init_transfer: TransferDescription) (sc_routes: "RouteState list")
  | ReceiveSecretRequest (sc_secrethash: SecretHash) (sc_rest: string)
  | ReceiveTransferRefundCancelRoute (sc_routes: "RouteState list")
      (refund_transfer: LockedTransferState) (sc_secret: Secret)
  | ActionCancelPayment (sc_payment_identifier: int)
  | ReceiveSecretReveal (sc_secret: Secret) (sc_rest: string)
  | ReceiveLockExpired (sc_secrethash: SecretHash) (sc_rest: string)
  | ContractReceiveSecretReveal (sc_secrethash: SecretHash) (sc_secret: Secret) (sc_rest: string)
  | OtherStateChange string

text \<open>\<^verbatim>\<open>TransitionResult(new_state, events)\<close>; \<^verbatim>\<open>new_state\<close> may be \<^verbatim>\<open>None\<close>.\<close>
datatype 's TransitionResult = TransitionResult (new_state: "'s option") (events: "Event list")

text \<open>The exceptions the module can raise.\<close>
datatype Error = KeyError | AssertionError | AttributeError

subsection \<open>Dict operations on the association list\<close>

definition dict_get :: "('k \<times> 'v) list \<Rightarrow> 'k \<Rightarrow> 'v option" where
  "dict_get d k = map_of d k"

text \<open>\<^verbatim>\<open>d[k] = v\<close>: an existing key keeps its position, a new key goes to the end.\<close>
definition dict_set :: "('k \<times> 'v) list \<Rightarrow> 'k \<Rightarrow> 'v \<Rightarrow> ('k \<times> 'v) list" where
  "dict_set d k v = AList.update k v d"

definition dict_del :: "('k \<times> 'v) list \<Rightarrow> 'k \<Rightarrow> ('k \<times> 'v) list" where
  "dict_del d k = AList.delete k d"

definition dict_keys :: "('k \<times> 'v) list \<Rightarrow> 'k list" where
  "dict_keys d = map fst d"

subsection \<open>Collaborators\<close>

text \<open>
  The modules \<^verbatim>\<open>channel\<close> and \<^verbatim>\<open>initiator\<close> are external collaborators of this module
  and are parameters of the model. The pseudo random generator is a mutable object that
  \<^verbatim>\<open>initiator.try_new_route\<close> and \<^verbatim>\<open>initiator.state_transition\<close> advance: its state
  (\<open>'g\<close>) goes in and comes out. \<^verbatim>\<open>initiator.state_transition\<close> receives the attempt by
  reference and may update it in place: besides its \<^verbatim>\<open>TransitionResult\<close> it gives the
  contents of the attempt after the call. The channel functions follow their interface:
  they return their results and this module never stores a channel state.

  \<^item> \<open>sha3\<close>: the hash from which \<^verbatim>\<open>TransferDescriptionWithSecretState\<close> derives
    \<^verbatim>\<open>secrethash\<close>.
  \<^item> \<open>try_new_route old_initiator_state channelidentifiers_to_channels available_routes
    transfer_description pseudo_random_generator block_number\<close>
  \<^item> \<open>initiator_state_transition initiator_state state_change channel_state
    pseudo_random_generator block_number\<close>
  \<^item> \<open>refund_transfer_matches_received refund_transfer original_transfer\<close>
  \<^item> \<open>handle_receive_refundtransfercancelroute channel_state refund_transfer\<close>: validity,
    events and a third component that this module discards.
  \<^item> \<open>handle_receive_lock_expired channel_state state_change block_number\<close>: the new
    channel state and the events.
  \<^item> \<open>get_lock end_state secrethash\<close>
\<close>
record ('p, 'g) Collaborators =
  sha3 :: "Secret \<Rightarrow> SecretHash"
  try_new_route :: "InitiatorTransferState option \<Rightarrow> 'p ChannelMap \<Rightarrow> RouteState list
    \<Rightarrow> TransferDescription \<Rightarrow> 'g \<Rightarrow> BlockNumber
    \<Rightarrow> InitiatorTransferState TransitionResult \<times> 'g"
  initiator_state_transition :: "InitiatorTransferState \<Rightarrow> StateChange
    \<Rightarrow> 'p NettingChannelState \<Rightarrow> 'g \<Rightarrow> BlockNumber
    \<Rightarrow> InitiatorTransferState \<times> InitiatorTransferState TransitionResult \<times> 'g"
  refund_transfer_matches_received :: "LockedTransferState \<Rightarrow> LockedTransferState \<Rightarrow> bool"
  handle_receive_refundtransfercancelroute :: "'p NettingChannelState \<Rightarrow> LockedTransferState
    \<Rightarrow> bool \<times> Event list \<times> string"
  handle_receive_lock_expired :: "'p NettingChannelState \<Rightarrow> StateChange \<Rightarrow> BlockNumber
    \<Rightarrow> 'p NettingChannelState \<times> Event list"
  get_lock :: "'p \<Rightarrow> SecretHash \<Rightarrow> HashTimeLockState option"

text \<open>Modelled from the spec: the constructor of \<^verbatim>\<open>TransferDescriptionWithSecretState\<close>,
  whose class is not part of this module (section 3.1: \<open>secrethash = H(secret)\<close>). It takes
  the seven arguments in the order of the call in \<^verbatim>\<open>handle_transferrefundcancelroute\<close>.\<close>
definition TransferDescriptionWithSecretState ::
  "('p, 'g) Collaborators \<Rightarrow> Address \<Rightarrow> int \<Rightarrow> int \<Rightarrow> Address \<Rightarrow> Address \<Rightarrow> Address
    \<Rightarrow> Secret \<Rightarrow> TransferDescription" where
  "TransferDescriptionWithSecretState c pn pid amt tn ini tgt sec =
     \<lparr>payment_network_identifier = pn, payment_identifier = pid, amount = amt,
      token_network_identifier = tn, initiator = ini, target = tgt, secret = sec,
      secrethash = sha3 c sec\<rparr>"

section \<open>The functions of the module\<close>

definition clear_if_finalized ::
  "InitiatorPaymentState TransitionResult \<Rightarrow> InitiatorPaymentState TransitionResult" where
  "clear_if_finalized iteration =
     (case new_state iteration of
        None \<Rightarrow> iteration
      | Some state \<Rightarrow>
          if length (initiator_transfers state) = 0
          then TransitionResult None (events iteration)
          else iteration)"

definition can_cancel :: "InitiatorTransferState option \<Rightarrow> bool" where
  "can_cancel initiator_state =
     (case initiator_state of None \<Rightarrow> True | Some i \<Rightarrow> revealsecret i = None)"

definition events_for_cancel_current_route :: "TransferDescription \<Rightarrow> Event list" where
  "events_for_cancel_current_route td =
     [EventUnlockFailed (payment_identifier td) (secrethash td) ''route was canceled'']"

text \<open>Returns the payment state as updated in place together with the events; the
  \<^verbatim>\<open>assert\<close> is the \<open>AssertionError\<close> branch.\<close>
definition cancel_current_route ::
  "InitiatorPaymentState \<Rightarrow> InitiatorTransferState
    \<Rightarrow> Error + (InitiatorPaymentState \<times> Event list)" where
  "cancel_current_route payment_state initiator_state =
     (if \<not> can_cancel (Some initiator_state) then Inl AssertionError
      else Inr (payment_state\<lparr>cancelled_channels :=
                   cancelled_channels payment_state @ [channel_identifier initiator_state]\<rparr>,
                events_for_cancel_current_route (transfer_description initiator_state)))"

definition maybe_try_new_route ::
  "('p, 'g) Collaborators \<Rightarrow> InitiatorPaymentState \<Rightarrow> InitiatorTransferState
    \<Rightarrow> TransferDescription \<Rightarrow> RouteState list \<Rightarrow> 'p ChannelMap \<Rightarrow> 'g \<Rightarrow> BlockNumber
    \<Rightarrow> Error + (InitiatorPaymentState TransitionResult \<times> 'g)" where
  "maybe_try_new_route c payment_state initiator_state td available_routes cm g block_number =
     (if can_cancel (Some initiator_state) then
        (case cancel_current_route payment_state initiator_state of
           Inl e \<Rightarrow> Inl e
         | Inr (payment_state1, cancel_events) \<Rightarrow>
             (case try_new_route c (Some initiator_state) cm available_routes td g block_number of
                (sub_iteration, g1) \<Rightarrow>
                  (case new_state sub_iteration of
                     None \<Rightarrow> Inl AssertionError
                   | Some new_initiator \<Rightarrow>
                       Inr (TransitionResult
                              (Some (payment_state1\<lparr>initiator_transfers :=
                                 dict_set (initiator_transfers payment_state1)
                                   (lock_secrethash (lock (transfer new_initiator)))
                                   new_initiator\<rparr>))
                              (cancel_events @ events sub_iteration),
                            g1))))
      else Inr (TransitionResult (Some payment_state) [], g))"

text \<open>\<^verbatim>\<open>channelidentifiers_to_channels[channel_identifier]\<close> raises \<^verbatim>\<open>KeyError\<close> for a
  missing key. A channel state found is an object, hence true: the branch
  \<^verbatim>\<open>if not channel_state\<close> cannot be taken.\<close>
definition subdispatch_to_initiatortransfer ::
  "('p, 'g) Collaborators \<Rightarrow> InitiatorTransferState \<Rightarrow> StateChange \<Rightarrow> 'p ChannelMap \<Rightarrow> 'g
    \<Rightarrow> BlockNumber
    \<Rightarrow> Error + (InitiatorTransferState \<times> InitiatorTransferState TransitionResult \<times> 'g)" where
  "subdispatch_to_initiatortransfer c initiator_state state_change cm g block_number =
     (case cm (channel_identifier initiator_state) of
        None \<Rightarrow> Inl KeyError
      | Some channel_state \<Rightarrow>
          Inr (initiator_state_transition c initiator_state state_change channel_state g
                 block_number))"

text \<open>The loop of \<^verbatim>\<open>subdispatch_to_all_initiatortransfer\<close> over the snapshot of the keys;
  the payment state, the events and the generator are the loop's state. The attempt found
  in the dict is the object handed to the sub-machine: \<open>transfers1\<close> is the dict with what
  the sub-machine wrote into that object, \<open>transfers2\<close> the dict after the \<^verbatim>\<open>del\<close>.\<close>
fun subdispatch_loop ::
  "('p, 'g) Collaborators \<Rightarrow> StateChange \<Rightarrow> 'p ChannelMap \<Rightarrow> BlockNumber \<Rightarrow> SecretHash list
    \<Rightarrow> InitiatorPaymentState \<Rightarrow> Event list \<Rightarrow> 'g
    \<Rightarrow> Error + (InitiatorPaymentState \<times> Event list \<times> 'g)" where
  "subdispatch_loop c state_change cm block_number [] payment_state evs g =
     Inr (payment_state, evs, g)"
| "subdispatch_loop c state_change cm block_number (sh # rest) payment_state evs g =
     (case dict_get (initiator_transfers payment_state) sh of
        None \<Rightarrow> Inl KeyError
      | Some initiator_state \<Rightarrow>
          (case cm (channel_identifier initiator_state) of
             None \<Rightarrow> subdispatch_loop c state_change cm block_number rest payment_state evs g
           | Some channel_state \<Rightarrow>
               (case initiator_state_transition c initiator_state state_change channel_state g
                       block_number of
                  (initiator_state1, sub_iteration, g1) \<Rightarrow>
                    let transfers1 = dict_set (initiator_transfers payment_state) sh
                                       initiator_state1;
                        transfers2 = (if new_state sub_iteration = None
                                      then dict_del transfers1 sh else transfers1)
                    in subdispatch_loop c state_change cm block_number rest
                         (payment_state\<lparr>initiator_transfers := transfers2\<rparr>)
                         (evs @ events sub_iteration) g1)))"

definition subdispatch_to_all_initiatortransfer ::
  "('p, 'g) Collaborators \<Rightarrow> InitiatorPaymentState \<Rightarrow> StateChange \<Rightarrow> 'p ChannelMap \<Rightarrow> 'g
    \<Rightarrow> BlockNumber \<Rightarrow> Error + (InitiatorPaymentState TransitionResult \<times> 'g)" where
  "subdispatch_to_all_initiatortransfer c payment_state state_change cm g block_number =
     (case subdispatch_loop c state_change cm block_number
             (dict_keys (initiator_transfers payment_state)) payment_state [] g of
        Inl e \<Rightarrow> Inl e
      | Inr (payment_state1, evs, g1) \<Rightarrow> Inr (TransitionResult (Some payment_state1) evs, g1))"

definition handle_block ::
  "('p, 'g) Collaborators \<Rightarrow> InitiatorPaymentState \<Rightarrow> StateChange \<Rightarrow> 'p ChannelMap \<Rightarrow> 'g
    \<Rightarrow> BlockNumber \<Rightarrow> Error + (InitiatorPaymentState TransitionResult \<times> 'g)" where
  "handle_block c payment_state state_change cm g block_number =
     subdispatch_to_all_initiatortransfer c payment_state state_change cm g block_number"

text \<open>\<^verbatim>\<open>InitiatorPaymentState(initiator_transfers={...})\<close> starts with no cancelled
  channel.\<close>
definition handle_init ::
  "('p, 'g) Collaborators \<Rightarrow> InitiatorPaymentState option \<Rightarrow> StateChange \<Rightarrow> 'p ChannelMap \<Rightarrow> 'g
    \<Rightarrow> BlockNumber \<Rightarrow> InitiatorPaymentState TransitionResult \<times> 'g" where
  "handle_init c payment_state state_change cm g block_number =
     (case payment_state of
        None \<Rightarrow>
          (case try_new_route c None cm (sc_routes state_change) (init_transfer state_change) g
                  block_number of
             (sub_iteration, g1) \<Rightarrow>
               (case new_state sub_iteration of
                  Some new_initiator \<Rightarrow>
                    (TransitionResult
                       (Some \<lparr>initiator_transfers =
                                [(lock_secrethash (lock (transfer new_initiator)), new_initiator)],
                              cancelled_channels = []\<rparr>)
                       (events sub_iteration), g1)
                | None \<Rightarrow> (TransitionResult None (events sub_iteration), g1)))
      | Some state \<Rightarrow> (TransitionResult (Some state) [], g))"

text \<open>The loop of \<^verbatim>\<open>handle_cancelpayment\<close> over the snapshot of the keys.\<close>
fun cancelpayment_loop ::
  "'p ChannelMap \<Rightarrow> SecretHash list \<Rightarrow> InitiatorPaymentState \<Rightarrow> Event list
    \<Rightarrow> Error + (InitiatorPaymentState \<times> Event list)" where
  "cancelpayment_loop cm [] payment_state evs = Inr (payment_state, evs)"
| "cancelpayment_loop cm (sh # rest) payment_state evs =
     (case dict_get (initiator_transfers payment_state) sh of
        None \<Rightarrow> Inl KeyError
      | Some initiator_state \<Rightarrow>
          (case cm (channel_identifier initiator_state) of
             None \<Rightarrow> Inl KeyError
           | Some channel_state \<Rightarrow>
               if can_cancel (Some initiator_state) then
                 (case cancel_current_route payment_state initiator_state of
                    Inl e \<Rightarrow> Inl e
                  | Inr (payment_state1, cancel_events) \<Rightarrow>
                      let td = transfer_description initiator_state;
                          payment_state2 = payment_state1\<lparr>initiator_transfers :=
                             dict_del (initiator_transfers payment_state1) sh\<rparr>;
                          cancel = EventPaymentSentFailed
                                     (chan_payment_network_identifier channel_state)
                                     (chan_token_network_identifier channel_state)
                                     (payment_identifier td) (target td)
                                     ''user canceled payment''
                      in cancelpayment_loop cm rest payment_state2
                           (evs @ (cancel_events @ [cancel])))
               else cancelpayment_loop cm rest payment_state evs))"

definition handle_cancelpayment ::
  "InitiatorPaymentState \<Rightarrow> 'p ChannelMap \<Rightarrow> Error + InitiatorPaymentState TransitionResult" where
  "handle_cancelpayment payment_state cm =
     (case cancelpayment_loop cm (dict_keys (initiator_transfers payment_state)) payment_state []
      of
        Inl e \<Rightarrow> Inl e
      | Inr (payment_state1, evs) \<Rightarrow> Inr (TransitionResult (Some payment_state1) evs))"

text \<open>The payment state of the final \<^verbatim>\<open>TransitionResult(payment_state, events)\<close> is the
  object that \<^verbatim>\<open>maybe_try_new_route\<close> updated in place, that is the state of its result.\<close>
definition handle_transferrefundcancelroute ::
  "('p, 'g) Collaborators \<Rightarrow> InitiatorPaymentState \<Rightarrow> StateChange \<Rightarrow> 'p ChannelMap \<Rightarrow> 'g
    \<Rightarrow> BlockNumber \<Rightarrow> Error + (InitiatorPaymentState TransitionResult \<times> 'g)" where
  "handle_transferrefundcancelroute c payment_state state_change cm g block_number =
     (case dict_get (initiator_transfers payment_state)
             (lock_secrethash (lock (refund_transfer state_change))) of
        None \<Rightarrow> Inr (TransitionResult (Some payment_state) [], g)
      | Some initiator_state \<Rightarrow>
          (case cm (channel_identifier initiator_state) of
             None \<Rightarrow> Inl KeyError
           | Some channel_state \<Rightarrow>
               let refund = refund_transfer state_change;
                   original_transfer = transfer initiator_state;
                   is_valid_lock =
                     (lock_secrethash (lock refund) = lock_secrethash (lock original_transfer) \<and>
                      lock_amount (lock refund) = lock_amount (lock original_transfer) \<and>
                      lock_expiration (lock refund) = lock_expiration (lock original_transfer));
                   is_valid_refund = refund_transfer_matches_received c refund original_transfer
               in
                 if \<not> is_valid_lock \<or> \<not> is_valid_refund
                 then Inr (TransitionResult (Some payment_state) [], g)
                 else
                   (case handle_receive_refundtransfercancelroute c channel_state refund of
                      (is_valid, channel_events, _) \<Rightarrow>
                        if \<not> is_valid then Inr (TransitionResult (Some payment_state) [], g)
                        else
                          let old_description = transfer_description initiator_state;
                              td = TransferDescriptionWithSecretState c
                                     (payment_network_identifier old_description)
                                     (payment_identifier old_description)
                                     (amount old_description)
                                     (token_network_identifier old_description)
                                     (initiator old_description)
                                     (target old_description)
                                     (sc_secret state_change)
                          in
                            (case maybe_try_new_route c payment_state initiator_state td
                                    (sc_routes state_change) cm g block_number of
                               Inl e \<Rightarrow> Inl e
                             | Inr (sub_iteration, g1) \<Rightarrow>
                                 Inr (TransitionResult (new_state sub_iteration)
                                        (channel_events @ events sub_iteration), g1)))))"

definition handle_lock_expired ::
  "('p, 'g) Collaborators \<Rightarrow> InitiatorPaymentState \<Rightarrow> StateChange \<Rightarrow> 'p ChannelMap \<Rightarrow> 'g
    \<Rightarrow> BlockNumber \<Rightarrow> Error + (InitiatorPaymentState TransitionResult \<times> 'g)" where
  "handle_lock_expired c payment_state state_change cm g block_number =
     (case dict_get (initiator_transfers payment_state) (sc_secrethash state_change) of
        None \<Rightarrow> Inr (TransitionResult (Some payment_state) [], g)
      | Some initiator_state \<Rightarrow>
          (case cm (channel_identifier initiator_state) of
             None \<Rightarrow> Inl KeyError
           | Some channel_state \<Rightarrow>
               (case handle_receive_lock_expired c channel_state state_change block_number of
                  (result_state, result_events) \<Rightarrow>
                    if get_lock c (partner_state result_state)
                         (lock_secrethash (lock (transfer initiator_state))) = None
                    then Inr (TransitionResult (Some payment_state)
                                (result_events @
                                 [EventUnlockClaimFailed
                                    (lt_payment_identifier (transfer initiator_state))
                                    (lock_secrethash (lock (transfer initiator_state)))
                                    ''Lock expired'']), g)
                    else Inr (TransitionResult (Some payment_state) result_events, g))))"

definition handle_offchain_secretreveal ::
  "('p, 'g) Collaborators \<Rightarrow> InitiatorPaymentState \<Rightarrow> StateChange \<Rightarrow> 'p ChannelMap \<Rightarrow> 'g
    \<Rightarrow> BlockNumber \<Rightarrow> Error + (InitiatorPaymentState TransitionResult \<times> 'g)" where
  "handle_offchain_secretreveal c payment_state state_change cm g block_number =
     subdispatch_to_all_initiatortransfer c payment_state state_change cm g block_number"

definition handle_onchain_secretreveal ::
  "('p, 'g) Collaborators \<Rightarrow> InitiatorPaymentState \<Rightarrow> StateChange \<Rightarrow> 'p ChannelMap \<Rightarrow> 'g
    \<Rightarrow> BlockNumber \<Rightarrow> Error + (InitiatorPaymentState TransitionResult \<times> 'g)" where
  "handle_onchain_secretreveal c payment_state state_change cm g block_number =
     subdispatch_to_all_initiatortransfer c payment_state state_change cm g block_number"

text \<open>The attempt found in the dict is the object handed to the sub-machine, so what the
  sub-machine writes into it shows in the dict, under the same key. The state of the
  sub-iteration is not looked at.\<close>
definition handle_secretrequest ::
  "('p, 'g) Collaborators \<Rightarrow> InitiatorPaymentState \<Rightarrow> StateChange \<Rightarrow> 'p ChannelMap \<Rightarrow> 'g
    \<Rightarrow> BlockNumber \<Rightarrow> Error + (InitiatorPaymentState TransitionResult \<times> 'g)" where
  "handle_secretrequest c payment_state state_change cm g block_number =
     (case dict_get (initiator_transfers payment_state) (sc_secrethash state_change) of
        None \<Rightarrow> Inr (TransitionResult (Some payment_state) [], g)
      | Some initiator_state \<Rightarrow>
          (case subdispatch_to_initiatortransfer c initiator_state state_change cm g
                  block_number of
             Inl e \<Rightarrow> Inl e
           | Inr (initiator_state1, sub_iteration, g1) \<Rightarrow>
               Inr (TransitionResult
                      (Some (payment_state\<lparr>initiator_transfers :=
                         dict_set (initiator_transfers payment_state)
                           (sc_secrethash state_change) initiator_state1\<rparr>))
                      (events sub_iteration), g1)))"

text \<open>Every handler but \<^verbatim>\<open>handle_init\<close> starts by reading
  \<^verbatim>\<open>payment_state.initiator_transfers\<close>, which raises \<^verbatim>\<open>AttributeError\<close> when the payment
  state is \<^verbatim>\<open>None\<close>.\<close>
definition on_payment_state ::
  "InitiatorPaymentState option \<Rightarrow> (InitiatorPaymentState \<Rightarrow> Error + 'a) \<Rightarrow> Error + 'a" where
  "on_payment_state payment_state handler =
     (case payment_state of None \<Rightarrow> Inl AttributeError | Some state \<Rightarrow> handler state)"

text \<open>The handler chosen by the \<^verbatim>\<open>if\<close>/\<^verbatim>\<open>elif\<close> chain of \<^verbatim>\<open>state_transition\<close> on the type
  of the state change: the value of \<^verbatim>\<open>iteration\<close> before the last line.\<close>
definition dispatch ::
  "('p, 'g) Collaborators \<Rightarrow> InitiatorPaymentState option \<Rightarrow> StateChange \<Rightarrow> 'p ChannelMap \<Rightarrow> 'g
    \<Rightarrow> BlockNumber \<Rightarrow> Error + (InitiatorPaymentState TransitionResult \<times> 'g)" where
  "dispatch c payment_state state_change cm g block_number =
     (case state_change of
        Block _ \<Rightarrow>
          on_payment_state payment_state
            (\<lambda>s. handle_block c s state_change cm g block_number)
      | ActionInitInitiator _ _ \<Rightarrow>
          Inr (handle_init c payment_state state_change cm g block_number)
      | ReceiveSecretRequest _ _ \<Rightarrow>
          on_payment_state payment_state
            (\<lambda>s. handle_secretrequest c s state_change cm g block_number)
      | ReceiveTransferRefundCancelRoute _ _ _ \<Rightarrow>
          on_payment_state payment_state
            (\<lambda>s. handle_transferrefundcancelroute c s state_change cm g block_number)
      | ActionCancelPayment _ \<Rightarrow>
          on_payment_state payment_state
            (\<lambda>s. case handle_cancelpayment s cm of
                    Inl e \<Rightarrow> Inl e | Inr iteration \<Rightarrow> Inr (iteration, g))
      | ReceiveSecretReveal _ _ \<Rightarrow>
          on_payment_state payment_state
            (\<lambda>s. handle_offchain_secretreveal c s state_change cm g block_number)
      | ReceiveLockExpired _ _ \<Rightarrow>
          on_payment_state payment_state
            (\<lambda>s. handle_lock_expired c s state_change cm g block_number)
      | ContractReceiveSecretReveal _ _ _ \<Rightarrow>
          on_payment_state payment_state
            (\<lambda>s. handle_onchain_secretreveal c s state_change cm g block_number)
      | OtherStateChange _ \<Rightarrow> Inr (TransitionResult payment_state [], g))"

definition state_transition ::
  "('p, 'g) Collaborators \<Rightarrow> InitiatorPaymentState option \<Rightarrow> StateChange \<Rightarrow> 'p ChannelMap \<Rightarrow> 'g
    \<Rightarrow> BlockNumber \<Rightarrow> Error + (InitiatorPaymentState TransitionResult \<times> 'g)" where
  "state_transition c payment_state state_change cm g block_number =
     (case dispatch c payment_state state_change cm g block_number of
        Inl e \<Rightarrow> Inl e
      | Inr (iteration, g1) \<Rightarrow> Inr (clear_if_finalized iteration, g1))"

section \<open>A concrete set of collaborators\<close>

text \<open>
  Small collaborators on which the functions can be evaluated. The partner's end state is
  the list of the secret hashes it holds a lock for; the generator state is a counter.
  \<open>try_new_route\<close> takes the first of the routes offered and fails with
  \<open>EventPaymentSentFailed\<close> when there is none; the sub-machine records a secret request
  in the attempt and ends the attempt on a block past the lock's expiration; the channel
  rejects a refund whose lock the partner already holds.
\<close>

definition demo_lock :: "SecretHash \<Rightarrow> HashTimeLockState" where
  "demo_lock sh = \<lparr>lock_amount = 100, lock_expiration = 50, lock_secrethash = sh\<rparr>"

definition demo_description :: "Secret \<Rightarrow> TransferDescription" where
  "demo_description s =
     \<lparr>payment_network_identifier = ''pn'', payment_identifier = 1, amount = 100,
      token_network_identifier = ''tn'', initiator = ''A'', target = ''T'', secret = s,
      secrethash = ''H'' @ s\<rparr>"

definition demo_attempt :: "Secret \<Rightarrow> ChannelID \<Rightarrow> InitiatorTransferState" where
  "demo_attempt s cid =
     \<lparr>transfer_description = demo_description s, channel_identifier = cid,
      transfer = \<lparr>lt_payment_identifier = 1, lock = demo_lock (''H'' @ s)\<rparr>,
      revealsecret = None, received_secret_request = False\<rparr>"

definition demo_channel :: "SecretHash list \<Rightarrow> (SecretHash list) NettingChannelState" where
  "demo_channel locked =
     \<lparr>chan_payment_network_identifier = ''pn'', chan_token_network_identifier = ''tn'',
      partner_state = locked\<rparr>"

definition demo :: "(SecretHash list, nat) Collaborators" where
  "demo =
     \<lparr>sha3 = (\<lambda>s. ''H'' @ s),
      try_new_route = (\<lambda>old cm routes td g bn.
         case routes of
           [] \<Rightarrow> (TransitionResult None
                    [EventPaymentSentFailed (payment_network_identifier td)
                       (token_network_identifier td) (payment_identifier td) (target td)
                       ''no route available''], g)
         | r # _ \<Rightarrow> (TransitionResult
                    (Some \<lparr>transfer_description = td, channel_identifier = snd r,
                           transfer = \<lparr>lt_payment_identifier = payment_identifier td,
                                       lock = \<lparr>lock_amount = amount td,
                                               lock_expiration = bn + 50,
                                               lock_secrethash = secrethash td\<rparr>\<rparr>,
                           revealsecret = None, received_secret_request = False\<rparr>)
                    [OtherEvent ''SendLockedTransfer''], Suc g)),
      initiator_state_transition = (\<lambda>a sc ch g bn.
         case sc of
           ReceiveSecretRequest _ _ \<Rightarrow>
             (a\<lparr>received_secret_request := True\<rparr>,
              TransitionResult (Some (a\<lparr>received_secret_request := True\<rparr>))
                [OtherEvent ''SendSecretReveal''], Suc g)
         | Block n \<Rightarrow>
             if lock_expiration (lock (transfer a)) < n
             then (a, TransitionResult None
                        [EventUnlockFailed (lt_payment_identifier (transfer a))
                           (lock_secrethash (lock (transfer a))) ''lock expired''], g)
             else (a, TransitionResult (Some a) [], g)
         | _ \<Rightarrow> (a, TransitionResult (Some a) [], g)),
      refund_transfer_matches_received = (\<lambda>r t.
         lt_payment_identifier r = lt_payment_identifier t),
      handle_receive_refundtransfercancelroute = (\<lambda>ch r.
         if lock_secrethash (lock r) \<in> set (partner_state ch)
         then (False, [OtherEvent ''EventInvalidReceivedTransferRefund''], ''duplicate lock'')
         else (True, [OtherEvent ''SendProcessed''], [])),
      handle_receive_lock_expired = (\<lambda>ch sc bn.
         (ch\<lparr>partner_state := removeAll (sc_secrethash sc) (partner_state ch)\<rparr>,
          [OtherEvent ''SendProcessed''])),
      get_lock = (\<lambda>p sh. if sh \<in> set p then Some (demo_lock sh) else None)\<rparr>"

definition demo_payment :: InitiatorPaymentState where
  "demo_payment =
     \<lparr>initiator_transfers = [(''Hs'', demo_attempt ''s'' 1)], cancelled_channels = []\<rparr>"

text \<open>A payment with a second attempt, on channel 2, whose secret has been revealed.\<close>
definition demo_payment2 :: InitiatorPaymentState where
  "demo_payment2 =
     \<lparr>initiator_transfers =
        [(''Hs'', demo_attempt ''s'' 1),
         (''Ht'', (demo_attempt ''t'' 2)\<lparr>revealsecret := Some (OtherEvent ''SendSecretReveal'')\<rparr>)],
      cancelled_channels = []\<rparr>"

text \<open>A refund of the lock of \<open>demo_attempt ''s''\<close> (when \<open>amt = 100\<close>) that carries the
  new secret \<open>''t''\<close>.\<close>
definition demo_refund :: "int \<Rightarrow> RouteState list \<Rightarrow> StateChange" where
  "demo_refund amt routes =
     ReceiveTransferRefundCancelRoute routes
       \<lparr>lt_payment_identifier = 1,
        lock = \<lparr>lock_amount = amt, lock_expiration = 50, lock_secrethash = ''Hs''\<rparr>\<rparr> ''t''"

section \<open>Definitions used to state the properties\<close>

text \<open>The finalization pass as the specification words it (section 4.1.1): an outcome
  whose state is present with an empty \<open>initiator_transfers\<close> becomes the absent state with
  the same events; any other outcome is returned as it is.\<close>
definition retire_when_empty ::
  "Error + (InitiatorPaymentState TransitionResult \<times> 'g)
    \<Rightarrow> Error + (InitiatorPaymentState TransitionResult \<times> 'g)" where
  "retire_when_empty outcome =
     (case outcome of
        Inl e \<Rightarrow> Inl e
      | Inr (iteration, g) \<Rightarrow>
          Inr (if new_state iteration \<noteq> None \<and>
                  initiator_transfers (the (new_state iteration)) = []
               then TransitionResult None (events iteration)
               else iteration, g))"

text \<open>The keys, among \<open>ks\<close>, of the attempts of the dict \<open>d\<close> that can be cancelled.\<close>
definition cancellable_keys ::
  "(SecretHash \<times> InitiatorTransferState) list \<Rightarrow> SecretHash list \<Rightarrow> SecretHash list" where
  "cancellable_keys d ks = filter (\<lambda>k. can_cancel (map_of d k)) ks"

text \<open>The two events of \<^verbatim>\<open>handle_cancelpayment\<close> for one cancelled attempt whose channel is
  in the channel map.\<close>
definition cancel_events_for :: "'p ChannelMap \<Rightarrow> InitiatorTransferState \<Rightarrow> Event list" where
  "cancel_events_for cm a =
     [EventUnlockFailed (payment_identifier (transfer_description a))
        (secrethash (transfer_description a)) ''route was canceled'',
      EventPaymentSentFailed
        (chan_payment_network_identifier (the (cm (channel_identifier a))))
        (chan_token_network_identifier (the (cm (channel_identifier a))))
        (payment_identifier (transfer_description a)) (target (transfer_description a))
        ''user canceled payment'']"

text \<open>The key \<open>k\<close> of the dict \<open>d\<close> holds an attempt whose channel is in the channel map.\<close>
definition has_channel ::
  "'p ChannelMap \<Rightarrow> (SecretHash \<times> InitiatorTransferState) list \<Rightarrow> SecretHash \<Rightarrow> bool" where
  "has_channel cm d k =
     (case dict_get d k of None \<Rightarrow> False | Some a \<Rightarrow> cm (channel_identifier a) \<noteq> None)"

section \<open>Auxiliary facts\<close>

text \<open>Unfolding sets for evaluating the functions on concrete inputs.\<close>
lemmas demo_defs = demo_def demo_lock_def demo_description_def demo_attempt_def demo_channel_def
  demo_payment_def demo_payment2_def demo_refund_def
lemmas mgr_defs = state_transition_def dispatch_def on_payment_state_def clear_if_finalized_def
  handle_init_def handle_block_def handle_secretrequest_def handle_transferrefundcancelroute_def
  handle_cancelpayment_def handle_lock_expired_def handle_offchain_secretreveal_def
  handle_onchain_secretreveal_def subdispatch_to_all_initiatortransfer_def
  subdispatch_to_initiatortransfer_def maybe_try_new_route_def cancel_current_route_def
  events_for_cancel_current_route_def can_cancel_def dict_get_def dict_set_def dict_del_def
  dict_keys_def TransferDescriptionWithSecretState_def


subsection \<open>The loop of \<^verbatim>\<open>handle_cancelpayment\<close>\<close>

lemma cancellable_keys_delete:
  "k \<notin> set ks \<Longrightarrow> cancellable_keys (AList.delete k d) ks = cancellable_keys d ks"
  unfolding cancellable_keys_def
  by (rule filter_cong) (auto simp: delete_conv')

lemma map_lookup_delete:
  "k \<notin> set ks \<Longrightarrow> map (\<lambda>x. f (the (map_of (AList.delete k d) x))) ks = map (\<lambda>x. f (the (map_of d x))) ks"
  by (rule map_cong) (auto simp: delete_conv')

lemma filter_delete_keys:
  "filter (\<lambda>p. fst p \<notin> set ks) (AList.delete k d) = filter (\<lambda>p. fst p \<notin> set (k # ks)) d"
  by (induction d) (auto simp: )

lemma cancelpayment_loop_closed:
  assumes "distinct ks"
    and "\<forall>k\<in>set ks. \<exists>a ch. map_of (initiator_transfers s) k = Some a \<and> cm (channel_identifier a) = Some ch"
  shows "cancelpayment_loop cm ks s evs =
     Inr (s\<lparr>initiator_transfers :=
              filter (\<lambda>p. fst p \<notin> set (cancellable_keys (initiator_transfers s) ks)) (initiator_transfers s),
            cancelled_channels := cancelled_channels s @
              map (\<lambda>k. channel_identifier (the (map_of (initiator_transfers s) k)))
                (cancellable_keys (initiator_transfers s) ks)\<rparr>,
          evs @ concat (map (\<lambda>k. cancel_events_for cm (the (map_of (initiator_transfers s) k)))
                (cancellable_keys (initiator_transfers s) ks)))"
  using assms
proof (induction ks arbitrary: s evs)
  case Nil
  then show ?case by (simp add: cancellable_keys_def)
next
  case (Cons k ks)
  from Cons.prems obtain a ch where a: "map_of (initiator_transfers s) k = Some a"
    and ch: "cm (channel_identifier a) = Some ch" by auto
  from Cons.prems have k: "k \<notin> set ks" and d: "distinct ks" by auto
  show ?case
  proof (cases "can_cancel (Some a)")
    case False
    have ck: "cancellable_keys (initiator_transfers s) (k # ks) = cancellable_keys (initiator_transfers s) ks"
      using False a by (simp add: cancellable_keys_def)
    have "cancelpayment_loop cm (k # ks) s evs = cancelpayment_loop cm ks s evs"
      using False a ch by (simp add: dict_get_def)
    also have "\<dots> = Inr (s\<lparr>initiator_transfers :=
              filter (\<lambda>p. fst p \<notin> set (cancellable_keys (initiator_transfers s) ks)) (initiator_transfers s),
            cancelled_channels := cancelled_channels s @
              map (\<lambda>k. channel_identifier (the (map_of (initiator_transfers s) k)))
                (cancellable_keys (initiator_transfers s) ks)\<rparr>,
          evs @ concat (map (\<lambda>k. cancel_events_for cm (the (map_of (initiator_transfers s) k)))
                (cancellable_keys (initiator_transfers s) ks)))"
      using Cons.prems d by (intro Cons.IH) auto
    finally show ?thesis by (simp only: ck)
  next
    case True
    define s2 where "s2 = s\<lparr>cancelled_channels := cancelled_channels s @ [channel_identifier a],
       initiator_transfers := AList.delete k (initiator_transfers s)\<rparr>"
    have ck: "cancellable_keys (initiator_transfers s) (k # ks) = k # cancellable_keys (initiator_transfers s) ks"
      using True a by (simp add: cancellable_keys_def)
    have sub: "k \<notin> set (cancellable_keys (initiator_transfers s) ks)"
      using k by (simp add: cancellable_keys_def)
    have step: "cancelpayment_loop cm (k # ks) s evs =
        cancelpayment_loop cm ks s2 (evs @ cancel_events_for cm a)"
      using True a ch
      by (simp add: dict_get_def dict_del_def cancel_current_route_def Let_def s2_def
          cancel_events_for_def events_for_cancel_current_route_def)
    have pre: "\<forall>k'\<in>set ks. \<exists>a ch. map_of (initiator_transfers s2) k' = Some a \<and> cm (channel_identifier a) = Some ch"
      using Cons.prems(2) k by (auto simp: s2_def delete_conv')
    have ih: "cancelpayment_loop cm ks s2 (evs @ cancel_events_for cm a) =
       Inr (s2\<lparr>initiator_transfers :=
              filter (\<lambda>p. fst p \<notin> set (cancellable_keys (initiator_transfers s2) ks)) (initiator_transfers s2),
            cancelled_channels := cancelled_channels s2 @
              map (\<lambda>k. channel_identifier (the (map_of (initiator_transfers s2) k)))
                (cancellable_keys (initiator_transfers s2) ks)\<rparr>,
          (evs @ cancel_events_for cm a) @ concat (map (\<lambda>k. cancel_events_for cm (the (map_of (initiator_transfers s2) k)))
                (cancellable_keys (initiator_transfers s2) ks)))"
      using d pre by (rule Cons.IH)
    have its2: "initiator_transfers s2 = AList.delete k (initiator_transfers s)"
      and cc2: "cancelled_channels s2 = cancelled_channels s @ [channel_identifier a]"
      by (simp_all add: s2_def)
    show ?thesis
      unfolding step ih its2 cc2 ck cancellable_keys_delete[OF k]
        map_lookup_delete[OF sub] filter_delete_keys
      using a by (simp add: s2_def)
  qed
qed

lemma filter_keys_entries:
  "distinct (map fst d) \<Longrightarrow>
   filter (\<lambda>k. P (map_of d k)) (map fst d) = map fst (filter (\<lambda>p. P (Some (snd p))) d)"
proof -
  assume dist: "distinct (map fst d)"
  have "filter (\<lambda>k. P (map_of d k)) (map fst d) = map fst (filter ((\<lambda>k. P (map_of d k)) \<circ> fst) d)"
    by (simp add: filter_map)
  also have "filter ((\<lambda>k. P (map_of d k)) \<circ> fst) d = filter (\<lambda>p. P (Some (snd p))) d"
    by (rule filter_cong) (auto simp: map_of_is_SomeI[OF dist] split_paired_all)
  finally show ?thesis .
qed

lemma map_lookup_entries:
  "distinct (map fst d) \<Longrightarrow> set xs \<subseteq> set d \<Longrightarrow>
   map (\<lambda>k. f (the (map_of d k))) (map fst xs) = map (\<lambda>p. f (snd p)) xs"
  by (induction xs) (auto simp: )

subsection \<open>The loop of \<^verbatim>\<open>subdispatch_to_all_initiatortransfer\<close>\<close>

lemma lookup_after_step:
  "k' \<noteq> k \<Longrightarrow>
   map_of (if b then dict_del (dict_set d k v) k else dict_set d k v) k' = map_of d k'"
  by (simp add: dict_del_def dict_set_def delete_conv' update_conv')

lemma lookup_after_step_all:
  "k \<notin> set ks \<Longrightarrow> k' \<in> set ks \<Longrightarrow>
   map_of (if b then dict_del (dict_set d k v) k else dict_set d k v) k' = map_of d k'"
  by (rule lookup_after_step) auto

lemma subdispatch_loop_skip:
  assumes "distinct ks"
    and "\<forall>k\<in>set ks. map_of (initiator_transfers s) k \<noteq> None"
    and "\<forall>k\<in>set ks. map_of (initiator_transfers s) k = map_of d0 k"
  shows "subdispatch_loop c sc cm bn ks s evs g =
         subdispatch_loop c sc cm bn (filter (has_channel cm d0) ks) s evs g"
  using assms
proof (induction ks arbitrary: s evs g)
  case Nil
  then show ?case by simp
next
  case (Cons k ks)
  from Cons.prems obtain a where a: "map_of (initiator_transfers s) k = Some a" by auto
  from Cons.prems have k: "k \<notin> set ks" and d: "distinct ks" by auto
  from Cons.prems(3) a have a0: "map_of d0 k = Some a" by simp
  show ?case
  proof (cases "cm (channel_identifier a)")
    case None
    then have "\<not> has_channel cm d0 k" using a0 by (simp add: has_channel_def dict_get_def)
    moreover have "subdispatch_loop c sc cm bn (k # ks) s evs g = subdispatch_loop c sc cm bn ks s evs g"
      using a None by (simp add: dict_get_def)
    moreover have "subdispatch_loop c sc cm bn ks s evs g =
         subdispatch_loop c sc cm bn (filter (has_channel cm d0) ks) s evs g"
      using Cons.prems d by (intro Cons.IH) auto
    ultimately show ?thesis by simp
  next
    case (Some ch)
    then have hc: "has_channel cm d0 k" using a0 by (simp add: has_channel_def dict_get_def)
    obtain a1 it g1 where r: "initiator_state_transition c a sc ch g bn = (a1, it, g1)"
      by (cases "initiator_state_transition c a sc ch g bn") auto
    define s1 where "s1 = s\<lparr>initiator_transfers :=
       (if new_state it = None then dict_del (dict_set (initiator_transfers s) k a1) k
        else dict_set (initiator_transfers s) k a1)\<rparr>"
    have step: "\<And>ks'. subdispatch_loop c sc cm bn (k # ks') s evs g =
        subdispatch_loop c sc cm bn ks' s1 (evs @ events it) g1"
      using a Some r by (simp add: dict_get_def Let_def s1_def)
    have same: "\<forall>k'\<in>set ks. map_of (initiator_transfers s1) k' = map_of (initiator_transfers s) k'"
      using k by (simp add: s1_def lookup_after_step_all)
    have "subdispatch_loop c sc cm bn ks s1 (evs @ events it) g1 =
         subdispatch_loop c sc cm bn (filter (has_channel cm d0) ks) s1 (evs @ events it) g1"
      using d same Cons.prems by (intro Cons.IH) auto
    then show ?thesis using hc by (simp only: step filter.simps if_True)
  qed
qed

lemma subdispatch_loop_frame:
  "subdispatch_loop c sc cm bn ks s evs g = Inr (s1, evs1, g1) \<Longrightarrow> k \<notin> set ks \<Longrightarrow>
   map_of (initiator_transfers s1) k = map_of (initiator_transfers s) k \<and>
   cancelled_channels s1 = cancelled_channels s"
proof (induction ks arbitrary: s evs g)
  case Nil
  then show ?case by simp
next
  case (Cons k' ks)
  from Cons.prems(2) have ne: "k \<noteq> k'" and k: "k \<notin> set ks" by auto
  from Cons.prems(1) obtain a where a: "map_of (initiator_transfers s) k' = Some a"
    by (cases "map_of (initiator_transfers s) k'") (auto simp: dict_get_def)
  show ?case
  proof (cases "cm (channel_identifier a)")
    case None
    with Cons.prems(1) a have "subdispatch_loop c sc cm bn ks s evs g = Inr (s1, evs1, g1)"
      by (simp add: dict_get_def)
    from Cons.IH[OF this k] show ?thesis .
  next
    case (Some ch)
    obtain a1 it g2 where r: "initiator_state_transition c a sc ch g bn = (a1, it, g2)"
      by (cases "initiator_state_transition c a sc ch g bn") auto
    define s2 where "s2 = s\<lparr>initiator_transfers :=
       (if new_state it = None then dict_del (dict_set (initiator_transfers s) k' a1) k'
        else dict_set (initiator_transfers s) k' a1)\<rparr>"
    from Cons.prems(1) a Some r
    have "subdispatch_loop c sc cm bn ks s2 (evs @ events it) g2 = Inr (s1, evs1, g1)"
      by (simp add: dict_get_def Let_def s2_def)
    from Cons.IH[OF this k] show ?thesis using ne by (simp add: s2_def lookup_after_step)
  qed
qed

lemma subdispatch_loop_returns:
  assumes "distinct ks" and "\<forall>k\<in>set ks. map_of (initiator_transfers s) k \<noteq> None"
  shows "\<exists>r. subdispatch_loop c sc cm bn ks s evs g = Inr r"
  using assms
proof (induction ks arbitrary: s evs g)
  case Nil
  then show ?case by simp
next
  case (Cons k ks)
  from Cons.prems obtain a where a: "map_of (initiator_transfers s) k = Some a" by auto
  from Cons.prems have k: "k \<notin> set ks" and d: "distinct ks" by auto
  show ?case
  proof (cases "cm (channel_identifier a)")
    case None
    have "\<exists>r. subdispatch_loop c sc cm bn ks s evs g = Inr r"
      using Cons.prems d by (intro Cons.IH) auto
    then show ?thesis using a None by (simp add: dict_get_def)
  next
    case (Some ch)
    obtain a1 it g2 where r: "initiator_state_transition c a sc ch g bn = (a1, it, g2)"
      by (cases "initiator_state_transition c a sc ch g bn") auto
    define s2 where "s2 = s\<lparr>initiator_transfers :=
       (if new_state it = None then dict_del (dict_set (initiator_transfers s) k a1) k
        else dict_set (initiator_transfers s) k a1)\<rparr>"
    have "\<forall>k'\<in>set ks. map_of (initiator_transfers s2) k' \<noteq> None"
      using k Cons.prems(2) by (simp add: s2_def lookup_after_step_all)
    then have "\<exists>r. subdispatch_loop c sc cm bn ks s2 (evs @ events it) g2 = Inr r"
      using d by (intro Cons.IH) auto
    then show ?thesis using a Some r by (simp add: dict_get_def Let_def s2_def)
  qed
qed

subsection \<open>Records and dispatch\<close>

lemma state_transition_retire:
  "state_transition c ps sc cm g bn = retire_when_empty (dispatch c ps sc cm g bn)"
  by (auto simp: state_transition_def retire_when_empty_def clear_if_finalized_def
      split: sum.splits option.splits)

lemma description_with_new_secret:
  "\<lparr>payment_network_identifier = payment_network_identifier d,
    payment_identifier = payment_identifier d, amount = amount d,
    token_network_identifier = token_network_identifier d, initiator = initiator d,
    target = target d, secret = sec, secrethash = h\<rparr>
   = d\<lparr>secret := sec, secrethash := h\<rparr>"
  by (cases d) simp

lemma state_transition_nonempty:
  "state_transition c ps sc cm g bn = Inr (TransitionResult (Some s) evs, g1) \<Longrightarrow>
   initiator_transfers s \<noteq> []"
  by (auto simp: state_transition_def clear_if_finalized_def
      split: sum.splits option.splits if_splits)

lemma lookup_has_channel:
  assumes "\<forall>p\<in>set d. cm (channel_identifier (snd p)) \<noteq> None" and "dict_get d k = Some a"
  shows "\<exists>ch. cm (channel_identifier a) = Some ch"
proof -
  from assms(2) have "(k, a) \<in> set d" by (simp add: dict_get_def map_of_SomeD)
  with assms(1) show ?thesis by fastforce
qed

lemma handle_cancelpayment_returns:
  assumes "distinct (dict_keys (initiator_transfers s))"
    and "\<forall>p\<in>set (initiator_transfers s). cm (channel_identifier (snd p)) \<noteq> None"
  shows "\<exists>r. handle_cancelpayment s cm = Inr r"
proof -
  let ?d = "initiator_transfers s"
  have dist: "distinct (map fst ?d)" using assms(1) by (simp add: dict_keys_def)
  have pre: "\<forall>k\<in>set (map fst ?d). \<exists>a ch. map_of ?d k = Some a \<and> cm (channel_identifier a) = Some ch"
    using assms(2) map_of_is_SomeI[OF dist] by fastforce
  show ?thesis
    unfolding handle_cancelpayment_def dict_keys_def cancelpayment_loop_closed[OF dist pre]
    by simp
qed

section \<open>Refund rejected by the channel (C1)\<close>

text \<open>
  C1. The specification has the effects of the channel returned when the channel rejects
  a refund that passed the lock check and \<^verbatim>\<open>refund_transfer_matches_received\<close>. The code
  collects them (\<^verbatim>\<open>events.extend(channel_events)\<close>) and then returns
  \<^verbatim>\<open>TransitionResult(payment_state, list())\<close>: on the payment \<open>demo_payment\<close>, whose channel
  already holds the lock \<open>''Hs''\<close>, the channel rejects the refund with one event, and both
  the handler and \<open>state_transition\<close> return the state unchanged with no event at all.
\<close>
theorem rejected_refund_drops_channel_events:
  "dict_get (initiator_transfers demo_payment) ''Hs'' = Some (demo_attempt ''s'' 1) \<and>
   refund_transfer_matches_received demo (refund_transfer (demo_refund 100 []))
     (transfer (demo_attempt ''s'' 1)) \<and>
   handle_receive_refundtransfercancelroute demo (demo_channel [''Hs''])
     (refund_transfer (demo_refund 100 [])) =
     (False, [OtherEvent ''EventInvalidReceivedTransferRefund''], ''duplicate lock'') \<and>
   handle_transferrefundcancelroute demo demo_payment (demo_refund 100 [])
     [1 \<mapsto> demo_channel [''Hs'']] (0::nat) 5 = Inr (TransitionResult (Some demo_payment) [], 0) \<and>
   state_transition demo (Some demo_payment) (demo_refund 100 [])
     [1 \<mapsto> demo_channel [''Hs'']] (0::nat) 5 = Inr (TransitionResult (Some demo_payment) [], 0)"
  by (simp add: mgr_defs demo_defs)

theorem rejected_refund_drops_channel_events_witness:
  "events (fst (projr (state_transition demo (Some demo_payment) (demo_refund 100 [])
     [1 \<mapsto> demo_channel [''Hs'']] (0::nat) 5))) \<noteq>
   fst (snd (handle_receive_refundtransfercancelroute demo (demo_channel [''Hs''])
     (refund_transfer (demo_refund 100 []))))"
  using rejected_refund_drops_channel_events by simp

section \<open>Inputs on which the transition raises (C2)\<close>

text \<open>
  C2. \<open>state_transition\<close> raises on two inputs that the claim names. A valid refund that
  the channel accepts, for an attempt that can be cancelled, with no route left: the
  \<^verbatim>\<open>assert sub_iteration.new_state\<close> of \<^verbatim>\<open>maybe_try_new_route\<close> fails. A secret request for
  an attempt whose channel is not in the channel map: the lookup
  \<^verbatim>\<open>channelidentifiers_to_channels[channel_identifier]\<close> of
  \<^verbatim>\<open>subdispatch_to_initiatortransfer\<close> raises \<^verbatim>\<open>KeyError\<close>.
\<close>
theorem state_transition_raises:
  "state_transition demo (Some demo_payment) (demo_refund 100 []) [1 \<mapsto> demo_channel []]
     (0::nat) 5 = Inl AssertionError \<and>
   state_transition demo (Some demo_payment) (ReceiveSecretRequest ''Hs'' []) Map.empty
     (0::nat) 5 = Inl KeyError"
  by (simp add: mgr_defs demo_defs)

theorem state_transition_raises_witness:
  "isl (state_transition demo (Some demo_payment) (demo_refund 100 []) [1 \<mapsto> demo_channel []]
     (0::nat) 5) \<and>
   isl (state_transition demo (Some demo_payment) (ReceiveSecretRequest ''Hs'' []) Map.empty
     (0::nat) 5)"
  using state_transition_raises by simp

text \<open>
  These are the only ways in which a present payment state makes the transition raise
  when the channel of every attempt is in the channel map: with distinct keys,
  \<open>state_transition\<close> returns a result for every event, but for the accepted refund of an
  attempt that can be cancelled, for which \<^verbatim>\<open>try_new_route\<close> returns no state.
\<close>
lemma raises_only_on_failed_retry:
  assumes "distinct (dict_keys (initiator_transfers s))"
    and "\<forall>p\<in>set (initiator_transfers s). cm (channel_identifier (snd p)) \<noteq> None"
  shows "(\<exists>r. state_transition c (Some s) sc cm g bn = Inr r) \<or>
     (state_transition c (Some s) sc cm g bn = Inl AssertionError \<and>
      (\<exists>rs t sec a.
         sc = ReceiveTransferRefundCancelRoute rs t sec \<and>
         dict_get (initiator_transfers s) (lock_secrethash (lock t)) = Some a \<and>
         revealsecret a = None \<and>
         new_state (fst (try_new_route c (Some a) cm rs
            ((transfer_description a)\<lparr>secret := sec, secrethash := sha3 c sec\<rparr>) g bn)) = None))"
proof -
  let ?d = "initiator_transfers s"
  have dist: "distinct (map fst ?d)" using assms(1) by (simp add: dict_keys_def)
  have pres: "\<forall>k\<in>set (map fst ?d). map_of ?d k \<noteq> None"
    by (auto simp: map_of_eq_None_iff)
  have all: "\<exists>r. subdispatch_to_all_initiatortransfer c s sc cm g bn = Inr r"
    using subdispatch_loop_returns [OF dist pres, of c sc cm bn "[]" g]
    by (auto simp: subdispatch_to_all_initiatortransfer_def dict_keys_def)
  have ret: "\<exists>r. state_transition c (Some s) sc cm g bn = Inr r"
    if "\<exists>r. dispatch c (Some s) sc cm g bn = Inr r"
    using that by (auto simp: state_transition_def)
  show ?thesis
  proof (cases sc)
    case (Block n)
    with all show ?thesis
      by (intro disjI1 ret) (simp add: dispatch_def on_payment_state_def handle_block_def)
  next
    case (ActionInitInitiator td rs)
    then show ?thesis by (intro disjI1 ret) (simp add: dispatch_def)
  next
    case (ReceiveSecretRequest sh x)
    show ?thesis
    proof (cases "dict_get ?d sh")
      case None
      with ReceiveSecretRequest show ?thesis
        by (intro disjI1 ret)
          (simp add: dispatch_def on_payment_state_def handle_secretrequest_def)
    next
      case (Some a)
      from lookup_has_channel [OF assms(2) Some] obtain ch
        where "cm (channel_identifier a) = Some ch" ..
      with Some ReceiveSecretRequest show ?thesis
        by (intro disjI1 ret)
          (simp add: dispatch_def on_payment_state_def handle_secretrequest_def
            subdispatch_to_initiatortransfer_def split: prod.splits)
    qed
  next
    case (ReceiveTransferRefundCancelRoute rs t sec)
    show ?thesis
    proof (cases "dict_get ?d (lock_secrethash (lock t))")
      case None
      with ReceiveTransferRefundCancelRoute show ?thesis
        by (intro disjI1 ret)
          (simp add: dispatch_def on_payment_state_def handle_transferrefundcancelroute_def)
    next
      case (Some a)
      from lookup_has_channel [OF assms(2) Some] obtain ch
        where ch: "cm (channel_identifier a) = Some ch" ..
      let ?td = "(transfer_description a)\<lparr>secret := sec, secrethash := sha3 c sec\<rparr>"
      show ?thesis
      proof (cases "revealsecret a = None \<and>
          new_state (fst (try_new_route c (Some a) cm rs ?td g bn)) = None \<and>
          state_transition c (Some s) sc cm g bn = Inl AssertionError")
        case True
        with Some ReceiveTransferRefundCancelRoute show ?thesis by blast
      next
        case False
        with Some ch ReceiveTransferRefundCancelRoute have "\<exists>r. state_transition c (Some s) sc cm g bn = Inr r"
          by (auto simp: state_transition_def dispatch_def on_payment_state_def
              handle_transferrefundcancelroute_def Let_def maybe_try_new_route_def
              cancel_current_route_def can_cancel_def TransferDescriptionWithSecretState_def
              description_with_new_secret
              split: prod.splits option.splits)
        then show ?thesis ..
      qed
    qed
  next
    case (ActionCancelPayment pid)
    with handle_cancelpayment_returns [OF assms] show ?thesis
      by (intro disjI1 ret) (auto simp: dispatch_def on_payment_state_def)
  next
    case (ReceiveSecretReveal sec x)
    with all show ?thesis
      by (intro disjI1 ret)
        (simp add: dispatch_def on_payment_state_def handle_offchain_secretreveal_def)
  next
    case (ReceiveLockExpired sh x)
    show ?thesis
    proof (cases "dict_get ?d sh")
      case None
      with ReceiveLockExpired show ?thesis
        by (intro disjI1 ret)
          (simp add: dispatch_def on_payment_state_def handle_lock_expired_def)
    next
      case (Some a)
      from lookup_has_channel [OF assms(2) Some] obtain ch
        where "cm (channel_identifier a) = Some ch" ..
      with Some ReceiveLockExpired show ?thesis
        by (intro disjI1 ret)
          (simp add: dispatch_def on_payment_state_def handle_lock_expired_def
            split: prod.splits)
    qed
  next
    case (ContractReceiveSecretReveal sh sec x)
    with all show ?thesis
      by (intro disjI1 ret)
        (simp add: dispatch_def on_payment_state_def handle_onchain_secretreveal_def)
  next
    case (OtherStateChange y)
    then show ?thesis by (intro disjI1 ret) (simp add: dispatch_def)
  qed
qed

section \<open>Cancelling the payment (C3)\<close>

text \<open>
  C3. On \<open>ActionCancelPayment\<close> every attempt whose \<open>revealsecret\<close> is absent is to be
  removed, with its channel appended to \<open>cancelled_channels\<close> and its two events emitted,
  and every attempt whose \<open>revealsecret\<close> is present is to stay. \<^verbatim>\<open>handle_cancelpayment\<close>
  reads \<^verbatim>\<open>channelidentifiers_to_channels[channel_identifier]\<close> for every attempt, before it
  looks at \<open>revealsecret\<close>, and raises \<^verbatim>\<open>KeyError\<close> when the channel is not in the channel
  map. On \<open>demo_payment\<close> with an empty channel map the attempt that can be cancelled is
  not cancelled and no event is emitted. On \<open>demo_payment2\<close> with channel 2 missing, the
  attempt whose secret is revealed, which needs no channel, makes the handler raise. The
  loop of \<^verbatim>\<open>subdispatch_to_all_initiatortransfer\<close> uses \<^verbatim>\<open>.get()\<close> on the same map.
\<close>
theorem cancelpayment_missing_channel:
  "dict_get (initiator_transfers demo_payment) ''Hs'' = Some (demo_attempt ''s'' 1) \<and>
   revealsecret (demo_attempt ''s'' 1) = None \<and>
   handle_cancelpayment demo_payment (Map.empty :: SecretHash list ChannelMap) = Inl KeyError \<and>
   state_transition demo (Some demo_payment) (ActionCancelPayment 1) Map.empty (0::nat) 5
     = Inl KeyError \<and>
   dict_get (initiator_transfers demo_payment2) ''Ht'' =
     Some ((demo_attempt ''t'' 2)\<lparr>revealsecret := Some (OtherEvent ''SendSecretReveal'')\<rparr>) \<and>
   handle_cancelpayment demo_payment2 [1 \<mapsto> demo_channel ([] :: SecretHash list)]
     = Inl KeyError \<and>
   state_transition demo (Some demo_payment2) (ActionCancelPayment 1) [1 \<mapsto> demo_channel []]
     (0::nat) 5 = Inl KeyError"
  by (simp add: mgr_defs demo_defs)

theorem cancelpayment_missing_channel_witness:
  "isl (state_transition demo (Some demo_payment) (ActionCancelPayment 1) Map.empty (0::nat) 5) \<and>
   isl (state_transition demo (Some demo_payment2) (ActionCancelPayment 1)
          [1 \<mapsto> demo_channel []] (0::nat) 5)"
  using cancelpayment_missing_channel by simp

text \<open>
  Where the lookup succeeds the handler does what C3 says. When the channel of every
  attempt is in the channel map (and the keys of the dict are distinct, as the keys of a
  dict are), \<^verbatim>\<open>handle_cancelpayment\<close> returns: the attempts whose \<open>revealsecret\<close> is absent
  are removed from \<open>initiator_transfers\<close>, their channel identifiers are appended to
  \<open>cancelled_channels\<close> in the order of the dict, and for each of them, in that order, an
  \<open>EventUnlockFailed\<close> with reason \<open>route was canceled\<close> and an \<open>EventPaymentSentFailed\<close> with
  reason \<open>user canceled payment\<close> are emitted; the attempts whose \<open>revealsecret\<close> is
  present stay in the mapping, unchanged and in their order.
\<close>
lemma cancelpayment_cancels_unrevealed:
  assumes "distinct (dict_keys (initiator_transfers s))"
    and "\<forall>p\<in>set (initiator_transfers s). cm (channel_identifier (snd p)) \<noteq> None"
  shows "handle_cancelpayment s cm =
    Inr (TransitionResult
      (Some (s\<lparr>initiator_transfers :=
                 filter (\<lambda>p. revealsecret (snd p) \<noteq> None) (initiator_transfers s),
               cancelled_channels := cancelled_channels s @
                 map (\<lambda>p. channel_identifier (snd p))
                   (filter (\<lambda>p. revealsecret (snd p) = None) (initiator_transfers s))\<rparr>))
      (concat (map (\<lambda>p. cancel_events_for cm (snd p))
                 (filter (\<lambda>p. revealsecret (snd p) = None) (initiator_transfers s)))))"
proof -
  let ?d = "initiator_transfers s"
  let ?c = "filter (\<lambda>p. revealsecret (snd p) = None) ?d"
  have dist: "distinct (map fst ?d)" using assms(1) by (simp add: dict_keys_def)
  have pre: "\<forall>k\<in>set (map fst ?d). \<exists>a ch. map_of ?d k = Some a \<and> cm (channel_identifier a) = Some ch"
    using assms(2) map_of_is_SomeI[OF dist] by fastforce
  have ck: "cancellable_keys ?d (map fst ?d) = map fst ?c"
    unfolding cancellable_keys_def using filter_keys_entries[OF dist, of can_cancel]
    by (simp add: can_cancel_def)
  have keep: "filter (\<lambda>p. fst p \<notin> set (map fst ?c)) ?d = filter (\<lambda>p. revealsecret (snd p) \<noteq> None) ?d"
  proof (rule filter_cong[OF refl])
    fix p assume p: "p \<in> set ?d"
    show "(fst p \<notin> set (map fst ?c)) = (revealsecret (snd p) \<noteq> None)"
    proof
      assume "fst p \<notin> set (map fst ?c)"
      with p show "revealsecret (snd p) \<noteq> None" by force
    next
      assume r: "revealsecret (snd p) \<noteq> None"
      show "fst p \<notin> set (map fst ?c)"
      proof
        assume "fst p \<in> set (map fst ?c)"
        then obtain q where q: "q \<in> set ?d" "revealsecret (snd q) = None" "fst q = fst p" by auto
        from dist p q(1) q(3) have "q = p"
          by (metis eq_key_imp_eq_value prod.collapse)
        with q r show False by simp
      qed
    qed
  qed
  have sub: "set ?c \<subseteq> set ?d" by auto
  show ?thesis
    unfolding handle_cancelpayment_def dict_keys_def
      cancelpayment_loop_closed[OF dist pre] ck keep
      map_lookup_entries[OF dist sub]
    by simp
qed

lemma cancelpayment_cancels_unrevealed_example:
  "handle_cancelpayment demo_payment2 [1 \<mapsto> demo_channel [], 2 \<mapsto> demo_channel []] =
     Inr (TransitionResult
       (Some \<lparr>initiator_transfers =
                [(''Ht'', (demo_attempt ''t'' 2)
                            \<lparr>revealsecret := Some (OtherEvent ''SendSecretReveal'')\<rparr>)],
              cancelled_channels = [1]\<rparr>)
       [EventUnlockFailed 1 ''Hs'' ''route was canceled'',
        EventPaymentSentFailed ''pn'' ''tn'' 1 ''T'' ''user canceled payment''])"
proof -
  let ?cm = "[1 \<mapsto> demo_channel [], 2 \<mapsto> demo_channel ([] :: SecretHash list)]"
  have h1: "distinct (dict_keys (initiator_transfers demo_payment2))"
    by (simp add: dict_keys_def demo_defs)
  have h2: "\<forall>p\<in>set (initiator_transfers demo_payment2). ?cm (channel_identifier (snd p)) \<noteq> None"
    by (simp add: demo_defs)
  show ?thesis
    unfolding cancelpayment_cancels_unrevealed [OF h1 h2]
    by (simp add: demo_defs cancel_events_for_def)
qed

section \<open>Refunds that do not match (C4)\<close>

text \<open>
  C4. A refund whose lock differs from the lock of the matched attempt, or that
  \<^verbatim>\<open>refund_transfer_matches_received\<close> refuses, is to be dropped: state unchanged, no
  event. \<^verbatim>\<open>handle_transferrefundcancelroute\<close> reads
  \<^verbatim>\<open>channelidentifiers_to_channels[channel_identifier]\<close> before it compares the locks, so
  for an attempt whose channel is not in the channel map a refund with another amount,
  and a refund with another payment identifier, which \<open>demo\<close>'s
  \<^verbatim>\<open>refund_transfer_matches_received\<close> refuses, raise \<^verbatim>\<open>KeyError\<close> instead of being
  dropped; the validation itself never uses the channel. With the channel present the
  same two refunds are dropped.
\<close>
theorem invalid_refund_missing_channel:
  "dict_get (initiator_transfers demo_payment) ''Hs'' = Some (demo_attempt ''s'' 1) \<and>
   lock_amount (lock (refund_transfer (demo_refund 7 []))) \<noteq>
     lock_amount (lock (transfer (demo_attempt ''s'' 1))) \<and>
   handle_transferrefundcancelroute demo demo_payment (demo_refund 7 []) Map.empty (0::nat) 5
     = Inl KeyError \<and>
   state_transition demo (Some demo_payment) (demo_refund 7 []) Map.empty (0::nat) 5
     = Inl KeyError \<and>
   \<not> refund_transfer_matches_received demo
       ((refund_transfer (demo_refund 100 []))\<lparr>lt_payment_identifier := 2\<rparr>)
       (transfer (demo_attempt ''s'' 1)) \<and>
   state_transition demo (Some demo_payment)
     (ReceiveTransferRefundCancelRoute []
        ((refund_transfer (demo_refund 100 []))\<lparr>lt_payment_identifier := 2\<rparr>) ''t'')
     Map.empty (0::nat) 5 = Inl KeyError \<and>
   state_transition demo (Some demo_payment) (demo_refund 7 []) [1 \<mapsto> demo_channel []]
     (0::nat) 5 = Inr (TransitionResult (Some demo_payment) [], 0) \<and>
   state_transition demo (Some demo_payment)
     (ReceiveTransferRefundCancelRoute []
        ((refund_transfer (demo_refund 100 []))\<lparr>lt_payment_identifier := 2\<rparr>) ''t'')
     [1 \<mapsto> demo_channel []] (0::nat) 5 = Inr (TransitionResult (Some demo_payment) [], 0)"
  by (simp add: mgr_defs demo_defs)

theorem invalid_refund_missing_channel_witness:
  "isl (state_transition demo (Some demo_payment) (demo_refund 7 []) Map.empty (0::nat) 5) \<and>
   isl (state_transition demo (Some demo_payment)
     (ReceiveTransferRefundCancelRoute []
        ((refund_transfer (demo_refund 100 []))\<lparr>lt_payment_identifier := 2\<rparr>) ''t'')
     Map.empty (0::nat) 5)"
  using invalid_refund_missing_channel by simp

text \<open>
  Where the lookup succeeds, or is not reached, the handler does what C4 says:
  \<^verbatim>\<open>handle_transferrefundcancelroute\<close> returns the state unchanged and no event when the
  secret hash of the refund's lock is not a key of \<open>initiator_transfers\<close>, and when the
  channel of the matched attempt is in the channel map and the refund's lock differs
  from the attempt's lock in its secret hash, amount or expiration, or
  \<^verbatim>\<open>refund_transfer_matches_received\<close> is false. So does \<open>state_transition\<close> when the state
  holds an attempt.
\<close>
lemma invalid_refund_is_noop:
  assumes "dict_get (initiator_transfers s) (lock_secrethash (lock t)) = None \<or>
    (\<exists>a ch. dict_get (initiator_transfers s) (lock_secrethash (lock t)) = Some a \<and>
       cm (channel_identifier a) = Some ch \<and>
       (lock_secrethash (lock t) \<noteq> lock_secrethash (lock (transfer a)) \<or>
        lock_amount (lock t) \<noteq> lock_amount (lock (transfer a)) \<or>
        lock_expiration (lock t) \<noteq> lock_expiration (lock (transfer a)) \<or>
        \<not> refund_transfer_matches_received c t (transfer a)))"
  shows "handle_transferrefundcancelroute c s (ReceiveTransferRefundCancelRoute rs t sec) cm g bn
     = Inr (TransitionResult (Some s) [], g)"
    and "initiator_transfers s \<noteq> [] \<Longrightarrow>
      state_transition c (Some s) (ReceiveTransferRefundCancelRoute rs t sec) cm g bn
        = Inr (TransitionResult (Some s) [], g)"
proof -
  show h: "handle_transferrefundcancelroute c s (ReceiveTransferRefundCancelRoute rs t sec) cm g bn
     = Inr (TransitionResult (Some s) [], g)"
    using assms by (auto simp: handle_transferrefundcancelroute_def Let_def)
  show "state_transition c (Some s) (ReceiveTransferRefundCancelRoute rs t sec) cm g bn
        = Inr (TransitionResult (Some s) [], g)" if "initiator_transfers s \<noteq> []"
    using that h
    by (simp add: state_transition_def dispatch_def on_payment_state_def clear_if_finalized_def)
qed

lemma invalid_refund_is_noop_example:
  "handle_transferrefundcancelroute demo demo_payment (demo_refund 7 [])
     [1 \<mapsto> demo_channel []] (0::nat) 5 = Inr (TransitionResult (Some demo_payment) [], 0)"
  unfolding demo_refund_def
  by (rule invalid_refund_is_noop(1)) (simp add: dict_get_def demo_defs)

section \<open>The finalization pass (C5)\<close>

text \<open>
  C5. Whatever the event, \<open>state_transition\<close> returns the outcome of the handler it
  dispatches to after the finalization pass \<open>retire_when_empty\<close>: a present state with an
  empty \<open>initiator_transfers\<close> is replaced by the absent state and the events are kept; any
  other outcome of the handler is returned as it is. The first conjunct is the general
  statement, the others name the handler of each event for a present state.
\<close>
theorem finalization_pass:
  "state_transition c ps sc cm g bn = retire_when_empty (dispatch c ps sc cm g bn) \<and>
   state_transition c (Some s) (Block n) cm g bn =
     retire_when_empty (handle_block c s (Block n) cm g bn) \<and>
   state_transition c ps (ActionInitInitiator td rs) cm g bn =
     retire_when_empty (Inr (handle_init c ps (ActionInitInitiator td rs) cm g bn)) \<and>
   state_transition c (Some s) (ReceiveSecretRequest sh x) cm g bn =
     retire_when_empty (handle_secretrequest c s (ReceiveSecretRequest sh x) cm g bn) \<and>
   state_transition c (Some s) (ReceiveTransferRefundCancelRoute rs t sec) cm g bn =
     retire_when_empty
       (handle_transferrefundcancelroute c s (ReceiveTransferRefundCancelRoute rs t sec) cm g
          bn) \<and>
   state_transition c (Some s) (ActionCancelPayment pid) cm g bn =
     retire_when_empty
       (case handle_cancelpayment s cm of Inl e \<Rightarrow> Inl e | Inr it \<Rightarrow> Inr (it, g)) \<and>
   state_transition c (Some s) (ReceiveSecretReveal sec x) cm g bn =
     retire_when_empty (handle_offchain_secretreveal c s (ReceiveSecretReveal sec x) cm g bn) \<and>
   state_transition c (Some s) (ReceiveLockExpired sh x) cm g bn =
     retire_when_empty (handle_lock_expired c s (ReceiveLockExpired sh x) cm g bn) \<and>
   state_transition c (Some s) (ContractReceiveSecretReveal sh sec x) cm g bn =
     retire_when_empty
       (handle_onchain_secretreveal c s (ContractReceiveSecretReveal sh sec x) cm g bn) \<and>
   state_transition c ps (OtherStateChange y) cm g bn =
     retire_when_empty (Inr (TransitionResult ps [], g))"
  unfolding state_transition_retire by (simp add: dispatch_def on_payment_state_def)

theorem finalization_pass_witness:
  "state_transition demo (Some demo_payment) (ActionCancelPayment 1) [1 \<mapsto> demo_channel []]
     (0::nat) 5 =
     Inr (TransitionResult None
            [EventUnlockFailed 1 ''Hs'' ''route was canceled'',
             EventPaymentSentFailed ''pn'' ''tn'' 1 ''T'' ''user canceled payment''], 0) \<and>
   state_transition demo (Some demo_payment2) (ActionCancelPayment 1)
     [1 \<mapsto> demo_channel [], 2 \<mapsto> demo_channel []] (0::nat) 5 =
     Inr (TransitionResult
       (Some \<lparr>initiator_transfers =
                [(''Ht'', (demo_attempt ''t'' 2)
                            \<lparr>revealsecret := Some (OtherEvent ''SendSecretReveal'')\<rparr>)],
              cancelled_channels = [1]\<rparr>)
       [EventUnlockFailed 1 ''Hs'' ''route was canceled'',
        EventPaymentSentFailed ''pn'' ''tn'' 1 ''T'' ''user canceled payment''], 0)"
proof -
  have a: "state_transition demo (Some demo_payment) (ActionCancelPayment 1)
      [1 \<mapsto> demo_channel []] (0::nat) 5 =
    retire_when_empty
      (case handle_cancelpayment demo_payment [1 \<mapsto> demo_channel []] of
         Inl e \<Rightarrow> Inl e | Inr it \<Rightarrow> Inr (it, 0))"
    using finalization_pass [of demo "Some demo_payment" "ActionCancelPayment 1"
        "[1 \<mapsto> demo_channel []]" "0::nat" 5 demo_payment] by simp
  have b: "state_transition demo (Some demo_payment2) (ActionCancelPayment 1)
      [1 \<mapsto> demo_channel [], 2 \<mapsto> demo_channel []] (0::nat) 5 =
    retire_when_empty
      (case handle_cancelpayment demo_payment2 [1 \<mapsto> demo_channel [], 2 \<mapsto> demo_channel []] of
         Inl e \<Rightarrow> Inl e | Inr it \<Rightarrow> Inr (it, 0))"
    using finalization_pass [of demo "Some demo_payment2" "ActionCancelPayment 1"
        "[1 \<mapsto> demo_channel [], 2 \<mapsto> demo_channel []]" "0::nat" 5 demo_payment2] by simp
  show ?thesis
    unfolding a b
    by (simp add: retire_when_empty_def handle_cancelpayment_def cancel_current_route_def
        events_for_cancel_current_route_def can_cancel_def dict_get_def dict_del_def
        dict_keys_def demo_defs)
qed

section \<open>A second initialization (C6)\<close>

text \<open>
  C6. On a payment state that is present, \<^verbatim>\<open>handle_init\<close>, the handler of
  \<open>ActionInitInitiator\<close>, returns that state unchanged with an empty list of events; the
  routes are not tried and the generator is not advanced. So does \<open>state_transition\<close> for
  every state that holds an attempt, as every state that a transition returns does
  (\<open>state_transition_nonempty\<close>).
\<close>
theorem second_init_is_noop:
  "handle_init c (Some s) (ActionInitInitiator td rs) cm g bn = (TransitionResult (Some s) [], g) \<and>
   (initiator_transfers s \<noteq> [] \<longrightarrow>
      state_transition c (Some s) (ActionInitInitiator td rs) cm g bn
        = Inr (TransitionResult (Some s) [], g))"
  by (simp add: state_transition_def dispatch_def handle_init_def clear_if_finalized_def)

theorem second_init_is_noop_witness:
  "handle_init demo (Some demo_payment) (ActionInitInitiator (demo_description ''u'') [(''B'', 1)])
     [1 \<mapsto> demo_channel []] (0::nat) 5 = (TransitionResult (Some demo_payment) [], 0) \<and>
   state_transition demo (Some demo_payment)
     (ActionInitInitiator (demo_description ''u'') [(''B'', 1)])
     [1 \<mapsto> demo_channel []] (0::nat) 5 = Inr (TransitionResult (Some demo_payment) [], 0)"
  using second_init_is_noop [of demo demo_payment "demo_description ''u''" "[(''B'', 1)]"
      "[1 \<mapsto> demo_channel []]" "0::nat" 5]
  by (simp add: demo_defs)

section \<open>Lock expired (C7)\<close>



text \<open>
  Where the lookup succeeds, or is not reached, the handler does what C7 says. If the
  secret hash of the event matches no attempt, \<^verbatim>\<open>handle_lock_expired\<close> returns the state
  unchanged and no event. If it matches an attempt whose channel is in the channel map,
  the channel handler \<^verbatim>\<open>handle_receive_lock_expired\<close> is applied to that channel; the
  payment state is returned unchanged with the events of the channel handler, followed
  by \<open>EventUnlockClaimFailed\<close> with reason \<open>Lock expired\<close> exactly when \<^verbatim>\<open>get_lock\<close> finds no
  lock for the secret hash of the attempt's lock in the partner state of the channel
  state that the channel handler returned.
\<close>
lemma lock_expired_claim_failed:
  "(dict_get (initiator_transfers s) sh = None \<longrightarrow>
      handle_lock_expired c s (ReceiveLockExpired sh x) cm g bn
        = Inr (TransitionResult (Some s) [], g)) \<and>
   (\<forall>a ch. dict_get (initiator_transfers s) sh = Some a \<and> cm (channel_identifier a) = Some ch
      \<longrightarrow>
      handle_lock_expired c s (ReceiveLockExpired sh x) cm g bn =
        Inr (TransitionResult (Some s)
               (snd (handle_receive_lock_expired c ch (ReceiveLockExpired sh x) bn) @
                (if get_lock c
                      (partner_state
                         (fst (handle_receive_lock_expired c ch (ReceiveLockExpired sh x) bn)))
                      (lock_secrethash (lock (transfer a))) = None
                 then [EventUnlockClaimFailed (lt_payment_identifier (transfer a))
                         (lock_secrethash (lock (transfer a))) ''Lock expired'']
                 else [])), g))"
  by (auto simp: handle_lock_expired_def split: prod.splits)

text \<open>Three inputs: an unknown secret hash; the expired lock \<open>''Hs''\<close>, which the channel
  handler removes from the partner's locks; and a partner that still holds a lock for
  \<open>''Hs''\<close> after the channel handler has processed an expiry (here a collaborator whose
  channel handler leaves the channel as it is).\<close>
lemma lock_expired_claim_failed_example:
  "handle_lock_expired demo demo_payment (ReceiveLockExpired ''Hx'' [])
     [1 \<mapsto> demo_channel [''Hs'']] (0::nat) 5
     = Inr (TransitionResult (Some demo_payment) [], 0) \<and>
   handle_lock_expired demo demo_payment (ReceiveLockExpired ''Hs'' [])
     [1 \<mapsto> demo_channel [''Hs'']] (0::nat) 5
     = Inr (TransitionResult (Some demo_payment)
         [OtherEvent ''SendProcessed'', EventUnlockClaimFailed 1 ''Hs'' ''Lock expired''], 0) \<and>
   handle_lock_expired (demo\<lparr>handle_receive_lock_expired := \<lambda>ch sc bn. (ch, [])\<rparr>)
     demo_payment (ReceiveLockExpired ''Hs'' []) [1 \<mapsto> demo_channel [''Hs'']] (0::nat) 5
     = Inr (TransitionResult (Some demo_payment) [], 0)"
  using
    lock_expired_claim_failed [of demo_payment "''Hx''" demo "[]"
      "[1 \<mapsto> demo_channel [''Hs'']]" "0::nat" 5]
    lock_expired_claim_failed [of demo_payment "''Hs''" demo "[]"
      "[1 \<mapsto> demo_channel [''Hs'']]" "0::nat" 5]
    lock_expired_claim_failed [of demo_payment "''Hs''"
      "demo\<lparr>handle_receive_lock_expired := \<lambda>ch sc bn. (ch, [])\<rparr>" "[]"
      "[1 \<mapsto> demo_channel [''Hs'']]" "0::nat" 5]
  by (simp add: dict_get_def demo_defs)

section \<open>The description of the retry (C8)\<close>

text \<open>
  C8. For a refund that is accepted (its lock's secret hash is a key whose attempt has
  its channel in the channel map, the lock equals the attempt's lock in secret hash,
  amount and expiration, \<^verbatim>\<open>refund_transfer_matches_received\<close> holds and the channel reports
  it valid), the handler's result is that of \<^verbatim>\<open>maybe_try_new_route\<close>, preceded by the
  channel's events, called with the description \<open>td\<close>: the description of the old attempt
  with the secret replaced by the secret of the state change (and the secret hash
  derived from it). \<open>payment_network_identifier\<close>, \<open>payment_identifier\<close>, \<open>amount\<close>,
  \<open>token_network_identifier\<close>, \<open>initiator\<close> and \<open>target\<close> are those of the old description.
\<close>
theorem refund_description_keeps_fields:
  assumes "dict_get (initiator_transfers s) (lock_secrethash (lock t)) = Some a"
    and "cm (channel_identifier a) = Some ch"
    and "lock_secrethash (lock t) = lock_secrethash (lock (transfer a))"
    and "lock_amount (lock t) = lock_amount (lock (transfer a))"
    and "lock_expiration (lock t) = lock_expiration (lock (transfer a))"
    and "refund_transfer_matches_received c t (transfer a)"
    and "handle_receive_refundtransfercancelroute c ch t = (True, channel_events, msg)"
    and "td = (transfer_description a)\<lparr>secret := sec, secrethash := sha3 c sec\<rparr>"
  shows
     "handle_transferrefundcancelroute c s (ReceiveTransferRefundCancelRoute rs t sec) cm g bn =
        (case maybe_try_new_route c s a td rs cm g bn of
           Inl e \<Rightarrow> Inl e
         | Inr (sub_iteration, g1) \<Rightarrow>
             Inr (TransitionResult (new_state sub_iteration)
                    (channel_events @ events sub_iteration), g1)) \<and>
      payment_network_identifier td = payment_network_identifier (transfer_description a) \<and>
      payment_identifier td = payment_identifier (transfer_description a) \<and>
      amount td = amount (transfer_description a) \<and>
      token_network_identifier td = token_network_identifier (transfer_description a) \<and>
      initiator td = initiator (transfer_description a) \<and>
      target td = target (transfer_description a) \<and>
      secret td = sec"
  using assms
  by (simp add: handle_transferrefundcancelroute_def Let_def
      TransferDescriptionWithSecretState_def description_with_new_secret)

text \<open>The witness: the refund of \<open>demo_payment\<close>'s attempt with a route over channel 2.
  The new attempt is keyed by the hash of the new secret and carries the old description
  with the new secret.\<close>
theorem refund_description_keeps_fields_witness:
  "handle_transferrefundcancelroute demo demo_payment (demo_refund 100 [(''C'', 2)])
     [1 \<mapsto> demo_channel [], 2 \<mapsto> demo_channel []] (0::nat) 5 =
   Inr (TransitionResult
     (Some \<lparr>initiator_transfers =
              [(''Hs'', demo_attempt ''s'' 1),
               (''Ht'', \<lparr>transfer_description = demo_description ''t'', channel_identifier = 2,
                         transfer = \<lparr>lt_payment_identifier = 1,
                                     lock = \<lparr>lock_amount = 100, lock_expiration = 55,
                                             lock_secrethash = ''Ht''\<rparr>\<rparr>,
                         revealsecret = None, received_secret_request = False\<rparr>)],
            cancelled_channels = [1]\<rparr>)
     [OtherEvent ''SendProcessed'', EventUnlockFailed 1 ''Hs'' ''route was canceled'',
      OtherEvent ''SendLockedTransfer''], Suc 0)"
proof -
  let ?t = "\<lparr>lt_payment_identifier = 1,
      lock = \<lparr>lock_amount = 100, lock_expiration = 50, lock_secrethash = ''Hs''\<rparr>\<rparr>"
  let ?cm = "[1 \<mapsto> demo_channel [], 2 \<mapsto> demo_channel ([] :: SecretHash list)]"
  have h1: "dict_get (initiator_transfers demo_payment) (lock_secrethash (lock ?t))
      = Some (demo_attempt ''s'' 1)"
    by (simp add: dict_get_def demo_defs)
  have h2: "?cm (channel_identifier (demo_attempt ''s'' 1)) = Some (demo_channel [])"
    by (simp add: demo_defs)
  have h3: "lock_secrethash (lock ?t) = lock_secrethash (lock (transfer (demo_attempt ''s'' 1)))"
    and h4: "lock_amount (lock ?t) = lock_amount (lock (transfer (demo_attempt ''s'' 1)))"
    and h5: "lock_expiration (lock ?t) = lock_expiration (lock (transfer (demo_attempt ''s'' 1)))"
    and h6: "refund_transfer_matches_received demo ?t (transfer (demo_attempt ''s'' 1))"
    and h7: "handle_receive_refundtransfercancelroute demo (demo_channel []) ?t
       = (True, [OtherEvent ''SendProcessed''], [])"
    by (simp_all add: demo_defs)
  note r = refund_description_keeps_fields [where cm = ?cm and c = demo and rs = "[(''C'', 2)]"
      and sec = "''t''" and g = "0::nat" and bn = 5, OF h1 h2 h3 h4 h5 h6 h7 refl,
      THEN conjunct1]
  show ?thesis
    unfolding demo_refund_def r
    by (simp add: maybe_try_new_route_def cancel_current_route_def can_cancel_def
        events_for_cancel_current_route_def dict_set_def demo_defs)
qed

section \<open>Broadcast and attempts without a channel (C9)\<close>

text \<open>
  C9. The handlers of \<open>Block\<close>, \<open>ReceiveSecretReveal\<close> and \<open>ContractReceiveSecretReveal\<close> are
  \<^verbatim>\<open>subdispatch_to_all_initiatortransfer\<close>. On a payment state (a dict, so with distinct
  keys) it returns, and its result, state, events and generator, is the result of the
  loop run over only the keys whose attempt has its channel in the channel map: the
  attempts without a channel are not handed to the sub-machine and add no event. Every
  such attempt is found unchanged under its key in the returned state.
\<close>
theorem broadcast_skips_missing_channel:
  assumes "distinct (dict_keys (initiator_transfers s))"
  shows "handle_block c s sc cm g bn = subdispatch_to_all_initiatortransfer c s sc cm g bn \<and>
    handle_offchain_secretreveal c s sc cm g bn =
      subdispatch_to_all_initiatortransfer c s sc cm g bn \<and>
    handle_onchain_secretreveal c s sc cm g bn =
      subdispatch_to_all_initiatortransfer c s sc cm g bn \<and>
    (\<exists>s1 evs g1.
       subdispatch_to_all_initiatortransfer c s sc cm g bn
         = Inr (TransitionResult (Some s1) evs, g1) \<and>
       subdispatch_loop c sc cm bn
         (filter (has_channel cm (initiator_transfers s)) (dict_keys (initiator_transfers s)))
         s [] g = Inr (s1, evs, g1) \<and>
       (\<forall>k a. dict_get (initiator_transfers s) k = Some a \<and> cm (channel_identifier a) = None
          \<longrightarrow> dict_get (initiator_transfers s1) k = Some a))"
proof -
  let ?d = "initiator_transfers s"
  let ?ks = "map fst ?d"
  have dist: "distinct ?ks" using assms by (simp add: dict_keys_def)
  have pres: "\<forall>k\<in>set ?ks. map_of ?d k \<noteq> None"
    by (auto simp: map_of_eq_None_iff)
  have skip: "subdispatch_loop c sc cm bn ?ks s [] g =
      subdispatch_loop c sc cm bn (filter (has_channel cm ?d) ?ks) s [] g"
    using dist pres by (intro subdispatch_loop_skip) auto
  from subdispatch_loop_returns[OF dist pres, of c sc cm bn "[]" g]
  obtain s1 evs g1 where r: "subdispatch_loop c sc cm bn ?ks s [] g = Inr (s1, evs, g1)"
    by (metis prod.exhaust)
  have frame: "dict_get (initiator_transfers s1) k = Some a"
    if "dict_get ?d k = Some a" "cm (channel_identifier a) = None" for k a
  proof -
    from that have "\<not> has_channel cm ?d k" by (simp add: has_channel_def)
    then have "k \<notin> set (filter (has_channel cm ?d) ?ks)" by simp
    from subdispatch_loop_frame[OF r[unfolded skip] this] that(1)
    show ?thesis by (simp add: dict_get_def)
  qed
  show ?thesis
    using r skip frame
    by (auto simp: handle_block_def handle_offchain_secretreveal_def
        handle_onchain_secretreveal_def subdispatch_to_all_initiatortransfer_def dict_keys_def)
qed

text \<open>The witness: a block past the expiration of both locks, with channel 2 missing from
  the channel map. The attempt on channel 1 ends; the attempt on channel 2 stays.\<close>
theorem broadcast_skips_missing_channel_witness:
  "\<exists>s1 evs g1.
     handle_block demo demo_payment2 (Block 100) [1 \<mapsto> demo_channel []] (0::nat) 5
       = Inr (TransitionResult (Some s1) evs, g1) \<and>
     evs = [EventUnlockFailed 1 ''Hs'' ''lock expired''] \<and>
     dict_get (initiator_transfers s1) ''Hs'' = None \<and>
     dict_get (initiator_transfers s1) ''Ht'' =
       Some ((demo_attempt ''t'' 2)\<lparr>revealsecret := Some (OtherEvent ''SendSecretReveal'')\<rparr>)"
proof -
  let ?cm = "[1 \<mapsto> demo_channel ([] :: SecretHash list)]"
  let ?a = "(demo_attempt ''t'' 2)\<lparr>revealsecret := Some (OtherEvent ''SendSecretReveal'')\<rparr>"
  have h: "distinct (dict_keys (initiator_transfers demo_payment2))"
    by (simp add: dict_keys_def demo_defs)
  from broadcast_skips_missing_channel [OF h, of demo "Block 100" ?cm "0::nat" 5]
  obtain s1 evs g1 where
    hb: "handle_block demo demo_payment2 (Block 100) ?cm 0 5 =
         subdispatch_to_all_initiatortransfer demo demo_payment2 (Block 100) ?cm 0 5"
    and r: "subdispatch_to_all_initiatortransfer demo demo_payment2 (Block 100) ?cm 0 5
         = Inr (TransitionResult (Some s1) evs, g1)"
    and l: "subdispatch_loop demo (Block 100) ?cm 5
         (filter (has_channel ?cm (initiator_transfers demo_payment2))
            (dict_keys (initiator_transfers demo_payment2)))
         demo_payment2 [] 0 = Inr (s1, evs, g1)"
    and f: "\<forall>k a. dict_get (initiator_transfers demo_payment2) k = Some a \<and>
            ?cm (channel_identifier a) = None
            \<longrightarrow> dict_get (initiator_transfers s1) k = Some a"
    by blast
  have keys: "filter (has_channel ?cm (initiator_transfers demo_payment2))
      (dict_keys (initiator_transfers demo_payment2)) = [''Hs'']"
    by (simp add: has_channel_def dict_get_def dict_keys_def demo_defs)
  have "dict_get (initiator_transfers demo_payment2) ''Ht'' = Some ?a \<and>
      ?cm (channel_identifier ?a) = None"
    by (simp add: dict_get_def demo_defs)
  with f have t: "dict_get (initiator_transfers s1) ''Ht'' = Some ?a" by blast
  from l have "evs = [EventUnlockFailed 1 ''Hs'' ''lock expired''] \<and>
      dict_get (initiator_transfers s1) ''Hs'' = None"
    unfolding keys by (auto simp: dict_get_def dict_set_def dict_del_def demo_defs)
  with hb r t show ?thesis by auto
qed

section \<open>Secret requests keep the keys (C10)\<close>

text \<open>
  C10. \<^verbatim>\<open>handle_secretrequest\<close> either raises \<^verbatim>\<open>KeyError\<close>, when the channel of the matched
  attempt is not in the channel map (nothing has been changed then), or returns a
  present state whose \<open>initiator_transfers\<close> has the keys of the state given, in the same
  order, whatever the sub-machine returns, the absent state included.
\<close>
theorem secretrequest_keeps_keys:
  "(\<exists>a. dict_get (initiator_transfers s) sh = Some a \<and> cm (channel_identifier a) = None \<and>
        handle_secretrequest c s (ReceiveSecretRequest sh x) cm g bn = Inl KeyError) \<or>
   (\<exists>s1 evs g1.
        handle_secretrequest c s (ReceiveSecretRequest sh x) cm g bn
          = Inr (TransitionResult (Some s1) evs, g1) \<and>
        dict_keys (initiator_transfers s1) = dict_keys (initiator_transfers s))"
proof (cases "dict_get (initiator_transfers s) sh")
  case None
  then show ?thesis by (simp add: handle_secretrequest_def)
next
  case (Some a)
  then have k: "sh \<in> fst ` set (initiator_transfers s)"
    by (auto simp: dict_get_def dest: map_of_SomeD intro: rev_image_eqI)
  show ?thesis
  proof (cases "cm (channel_identifier a)")
    case None
    with Some show ?thesis
      by (simp add: handle_secretrequest_def subdispatch_to_initiatortransfer_def)
  next
    case (Some ch)
    with \<open>dict_get (initiator_transfers s) sh = Some a\<close> k show ?thesis
      by (auto simp: handle_secretrequest_def subdispatch_to_initiatortransfer_def
          dict_keys_def dict_set_def update_keys split: prod.splits)
  qed
qed

text \<open>The witness: a sub-machine that ends the attempt on a secret request (it returns the
  absent state). The attempt stays under its key.\<close>
theorem secretrequest_keeps_keys_witness:
  "\<exists>s1 evs g1.
     handle_secretrequest
       (demo\<lparr>initiator_state_transition :=
          \<lambda>a sc ch g bn. (a, TransitionResult None [OtherEvent ''EventPaymentSentSuccess''], g)\<rparr>)
       demo_payment (ReceiveSecretRequest ''Hs'' []) [1 \<mapsto> demo_channel []] (0::nat) 5
       = Inr (TransitionResult (Some s1) evs, g1) \<and>
     dict_keys (initiator_transfers s1) = [''Hs'']"
  using secretrequest_keeps_keys [of demo_payment "''Hs''" "[1 \<mapsto> demo_channel []]"
      "demo\<lparr>initiator_state_transition :=
          \<lambda>a sc ch g bn. (a, TransitionResult None [OtherEvent ''EventPaymentSentSuccess''], g)\<rparr>"
      "[]" "0::nat" 5]
  by (simp add: dict_get_def dict_keys_def demo_defs)

end
